theory Spec2Isabelle
  imports Main "HOL-Library.Multiset"
begin

section \<open>Payment card fields: validation and reformatting pipeline\<close>

text \<open>
  A shallow embedding of the anonymous namespace of
  \<^verbatim>\<open>Telegram/SourceFiles/payments/ui/payments_edit_card.cpp\<close>: the helpers that strip a
  field to its digits, the two formatters (card number, expiry date), the two edit
  classifiers and the validators built from them.

  A \<^verbatim>\<open>QString\<close> is a \<^typ>\<open>string\<close>, a C++ \<^verbatim>\<open>int\<close> is an \<^typ>\<open>int\<close> (cursor positions and
  sizes stay far from the limits of a 32-bit integer, whose overflow C++ leaves
  undefined). Characters are compared by their code, as \<^verbatim>\<open>QChar\<close> does; a \<^typ>\<open>char\<close> has
  eight bits, which covers the digits and separators these functions handle. A null and an
  empty \<^verbatim>\<open>QString\<close> compare equal, concatenate alike and are both \<^verbatim>\<open>isEmpty()\<close>, so both
  are the empty list.
\<close>

subsection \<open>The Qt string operations the file calls\<close>

definition unicode :: "char \<Rightarrow> nat" where
  "unicode c = of_char c"

definition QString_size :: "string \<Rightarrow> int" where
  "QString_size s = int (length s)"

text \<open>
  \<^verbatim>\<open>QString::mid(position, n)\<close> and \<^verbatim>\<open>midRef\<close> of Qt 5 (both go through
  \<^verbatim>\<open>QContainerImplHelper::mid\<close>): nothing when the position is past the end; a negative
  position eats into \<open>n\<close>; a negative or too large \<open>n\<close> means "up to the end". The one-argument
  call \<^verbatim>\<open>mid(position)\<close> has \<open>n = -1\<close>.
\<close>

definition QString_mid :: "string \<Rightarrow> int \<Rightarrow> int \<Rightarrow> string" where
  "QString_mid s pos n =
     (if pos > QString_size s then []
      else if pos < 0 then
        (if n < 0 \<or> n + pos \<ge> QString_size s then s
         else if n + pos \<le> 0 then []
         else take (nat (n + pos)) s)
      else
        (let n' = (if n < 0 \<or> n > QString_size s - pos then QString_size s - pos else n)
         in take (nat n') (drop (nat pos) s)))"

text \<open>
  \<^verbatim>\<open>QString::insert(i, ch)\<close> of Qt 5: a negative index counts from the end (and does nothing
  when it is still negative), an index past the end pads with spaces.
\<close>

definition QString_insert :: "string \<Rightarrow> int \<Rightarrow> char \<Rightarrow> string" where
  "QString_insert s i ch =
     (let j = (if i < 0 then i + QString_size s else i)
      in if j < 0 then s
         else if j > QString_size s
           then s @ replicate (nat (j - QString_size s)) CHR '' '' @ [ch]
         else take (nat j) s @ ch # drop (nat j) s)"

text \<open>
  \<^verbatim>\<open>value[i]\<close> on a non-const \<^verbatim>\<open>QString\<close> of Qt 5 yields a \<^verbatim>\<open>QCharRef\<close>; read as a \<^verbatim>\<open>QChar\<close>
  it gives the character at \<open>i\<close> when \<open>i\<close> is less than the size, and the null character
  otherwise (debug builds warn about the read outside the string).
\<close>

definition QString_at :: "string \<Rightarrow> int \<Rightarrow> char" where
  "QString_at s i =
     (if 0 \<le> i \<and> i < QString_size s then s ! nat i else CHR 0x00)"

subsection \<open>Data\<close>

record SimpleFieldState =
  "value" :: string
  position :: int

text \<open>
  \<^verbatim>\<open>FieldValidateRequest\<close> and \<^verbatim>\<open>FieldValidateResult\<close> are declared in
  \<^verbatim>\<open>payments_field.h\<close>; these are the fields this file reads and writes. The fields of the
  result carry the prefix \<open>result_\<close> where the name is already a field of
  \<^typ>\<open>SimpleFieldState\<close>.
\<close>

record FieldValidateRequest =
  wasValue :: string
  wasPosition :: int
  wasAnchor :: int
  nowValue :: string
  nowPosition :: int

record FieldValidateResult =
  result_value :: string
  result_position :: int
  invalid :: bool
  finished :: bool

text \<open>
  The verdict of the Stripe checkers (\<^verbatim>\<open>Stripe::ValidateCard\<close>,
  \<^verbatim>\<open>Stripe::ValidateExpireDate\<close>, \<^verbatim>\<open>Stripe::ValidateCvc\<close>), which live outside this file: the
  validators below take the checker as a parameter and read these two fields of its answer.
\<close>

datatype ValidationState = Invalid | Incomplete | Valid

record ValidationResult =
  state :: ValidationState
  verdict_finished :: bool

subsection \<open>Stripping to digits\<close>

definition isDigit :: "char \<Rightarrow> bool" where
  "isDigit c = (unicode CHR ''0'' \<le> unicode c \<and> unicode c \<le> unicode CHR ''9'')"

text \<open>\<^verbatim>\<open>value.replace(QRegularExpression("[^0-9]"), QString())\<close>\<close>

definition RemoveNonNumbers :: "string \<Rightarrow> string" where
  "RemoveNonNumbers v = filter isDigit v"

definition NumbersOnlyState :: "SimpleFieldState \<Rightarrow> SimpleFieldState" where
  "NumbersOnlyState st =
     \<lparr> value = RemoveNonNumbers (value st),
       position = QString_size (RemoveNonNumbers (QString_mid (value st) 0 (position st))) \<rparr>"

subsection \<open>The formatters\<close>

text \<open>
  The loop of \<^verbatim>\<open>PostprocessCardValidateResult\<close> over the group lengths: \<open>pos\<close> is the local
  \<^verbatim>\<open>position\<close>, the first branch is the \<^verbatim>\<open>break\<close>.
\<close>

fun card_loop :: "int list \<Rightarrow> int \<Rightarrow> SimpleFieldState \<Rightarrow> SimpleFieldState" where
  "card_loop [] pos result = result"
| "card_loop (len # groups) pos result =
     (let pos1 = pos + len
      in if pos1 \<ge> QString_size (value result) then result
         else
           (let inserted = result\<lparr>value := QString_insert (value result) pos1 CHR '' ''\<rparr>;
                moved = (if position inserted \<ge> pos1
                         then inserted\<lparr>position := position inserted + 1\<rparr>
                         else inserted)
            in card_loop groups (pos1 + 1) moved))"

text \<open>
  \<^verbatim>\<open>Stripe::CardNumberFormat\<close> (the group lengths of a card number, chosen by its prefix) is
  outside this file: the formatter takes it as the parameter \<open>CardNumberFormat\<close>.
\<close>

definition PostprocessCardValidateResult ::
    "(string \<Rightarrow> int list) \<Rightarrow> SimpleFieldState \<Rightarrow> SimpleFieldState" where
  "PostprocessCardValidateResult CardNumberFormat result =
     card_loop (CardNumberFormat (value result)) 0 result"

definition PostprocessExpireDateValidateResult :: "SimpleFieldState \<Rightarrow> SimpleFieldState" where
  "PostprocessExpireDateValidateResult result =
     (if value result = [] then result
      else if QString_at (value result) 0 = CHR ''1''
              \<and> unicode (QString_at (value result) 1) > unicode CHR ''2''
        then result\<lparr>value := QString_mid (value result) 0 2\<rparr>
      else
        (let prefixed = (if unicode (QString_at (value result) 0) > unicode CHR ''1''
                         then result\<lparr>value := CHR ''0'' # value result,
                                     position := position result + 1\<rparr>
                         else result)
         in if QString_size (value prefixed) > 1 then
              (let cut = (if QString_size (value prefixed) > 4
                          then prefixed\<lparr>value := QString_mid (value prefixed) 0 4\<rparr>
                          else prefixed);
                   slashed = cut\<lparr>value := QString_insert (value cut) 2 CHR ''/''\<rparr>
               in if position slashed \<ge> 2
                  then slashed\<lparr>position := position slashed + 1\<rparr>
                  else slashed)
            else prefixed))"

text \<open>
  The character reads of \<^verbatim>\<open>PostprocessExpireDateValidateResult\<close>, in the order the
  conditions of lines 72 to 77 make them, each with the size of the string at that moment:
  \<^verbatim>\<open>value[0] == '1' && value[1] > '2'\<close> reads index 1 only when index 0 holds \<^verbatim>\<open>'1'\<close>, and
  \<^verbatim>\<open>value[0] > '1'\<close> is evaluated only when that conjunction is false.
\<close>

definition PostprocessExpireDate_reads :: "SimpleFieldState \<Rightarrow> (int \<times> int) list" where
  "PostprocessExpireDate_reads result =
     (let n = QString_size (value result)
      in if value result = [] then []
         else if QString_at (value result) 0 = CHR ''1''
           then (0, n) # (1, n) #
                (if unicode (QString_at (value result) 1) > unicode CHR ''2''
                 then [] else [(0, n)])
         else [(0, n), (0, n)])"

definition read_in_bounds :: "int \<times> int \<Rightarrow> bool" where
  "read_in_bounds r = (0 \<le> fst r \<and> fst r < snd r)"

text \<open>
  Names for the two tests on the first characters (lines 74 and 77), used to state the
  properties below: the value starts with \<^verbatim>\<open>'1'\<close> followed by a character above \<^verbatim>\<open>'2'\<close>; the
  value starts with a character above \<^verbatim>\<open>'1'\<close>.
\<close>

abbreviation month_over_12 :: "string \<Rightarrow> bool" where
  "month_over_12 v \<equiv>
     QString_at v 0 = CHR ''1'' \<and> unicode CHR ''2'' < unicode (QString_at v 1)"

abbreviation month_needs_zero :: "string \<Rightarrow> bool" where
  "month_needs_zero v \<equiv> unicode CHR ''1'' < unicode (QString_at v 0)"

subsection \<open>Classifying the edit\<close>

definition IsBackspace :: "FieldValidateRequest \<Rightarrow> bool" where
  "IsBackspace request =
     (wasAnchor request = wasPosition request
      \<and> wasPosition request = nowPosition request + 1
      \<and> QString_mid (wasValue request) 0 (wasPosition request - 1)
          = QString_mid (nowValue request) 0 (nowPosition request)
      \<and> QString_mid (wasValue request) (wasPosition request) (- 1)
          = QString_mid (nowValue request) (nowPosition request) (- 1))"

definition IsDelete :: "FieldValidateRequest \<Rightarrow> bool" where
  "IsDelete request =
     (wasAnchor request = wasPosition request
      \<and> wasPosition request = nowPosition request
      \<and> QString_mid (wasValue request) 0 (wasPosition request)
          = QString_mid (nowValue request) 0 (nowPosition request)
      \<and> QString_mid (wasValue request) (wasPosition request + 1) (- 1)
          = QString_mid (nowValue request) (nowPosition request) (- 1))"

subsection \<open>The validators\<close>

text \<open>The lambda \<^verbatim>\<open>realNowState\<close> of \<^verbatim>\<open>ComplexNumberValidator\<close>.\<close>

definition realNowState :: "FieldValidateRequest \<Rightarrow> SimpleFieldState" where
  "realNowState request =
     (let backspaced = IsBackspace request;
          deleted = IsDelete request
      in if \<not> backspaced \<and> \<not> deleted
         then NumbersOnlyState \<lparr> value = nowValue request, position = nowPosition request \<rparr>
         else
           (let realWasState =
                  NumbersOnlyState \<lparr> value = wasValue request, position = wasPosition request \<rparr>;
                changedValue =
                  (if deleted
                   then QString_mid (value realWasState) 0 (position realWasState)
                        @ QString_mid (value realWasState) (position realWasState + 1) (- 1)
                   else if position realWasState > 1
                   then QString_mid (value realWasState) 0 (position realWasState - 1)
                        @ QString_mid (value realWasState) (position realWasState) (- 1)
                   else QString_mid (value realWasState) (position realWasState) (- 1))
            in \<lparr> value = changedValue,
                 position = (if deleted then position realWasState
                             else max (position realWasState - 1) 0) \<rparr>))"

definition ComplexNumberValidator ::
    "(string \<Rightarrow> ValidationResult) \<Rightarrow> (SimpleFieldState \<Rightarrow> SimpleFieldState)
      \<Rightarrow> FieldValidateRequest \<Rightarrow> FieldValidateResult" where
  "ComplexNumberValidator valueValidator postprocess request =
     (let now = realNowState request;
          result = valueValidator (value now);
          postprocessed = postprocess now
      in \<lparr> result_value = value postprocessed,
           result_position = position postprocessed,
           invalid = (state result = Invalid),
           finished = verdict_finished result \<rparr>)"

definition CardNumberValidator ::
    "(string \<Rightarrow> ValidationResult) \<Rightarrow> (string \<Rightarrow> int list)
      \<Rightarrow> FieldValidateRequest \<Rightarrow> FieldValidateResult" where
  "CardNumberValidator ValidateCard CardNumberFormat =
     ComplexNumberValidator ValidateCard (PostprocessCardValidateResult CardNumberFormat)"

definition ExpireDateValidator ::
    "(string \<Rightarrow> ValidationResult) \<Rightarrow> FieldValidateRequest \<Rightarrow> FieldValidateResult" where
  "ExpireDateValidator ValidateExpireDate =
     ComplexNumberValidator ValidateExpireDate PostprocessExpireDateValidateResult"

text \<open>
  \<^verbatim>\<open>CvcValidator\<close>: \<open>number\<close> is what the callback \<^verbatim>\<open>number()\<close> returns, the card number
  field's text at the time of the call.
\<close>

definition CvcValidator ::
    "(string \<Rightarrow> string \<Rightarrow> ValidationResult) \<Rightarrow> string
      \<Rightarrow> FieldValidateRequest \<Rightarrow> FieldValidateResult" where
  "CvcValidator ValidateCvc number request =
     (let now = NumbersOnlyState \<lparr> value = nowValue request, position = nowPosition request \<rparr>;
          result = ValidateCvc number (value now)
      in \<lparr> result_value = value now,
           result_position = position now,
           invalid = (state result = Invalid),
           finished = verdict_finished result \<rparr>)"

section \<open>Properties\<close>

lemmas qt_defs =
  QString_at_def QString_size_def QString_mid_def QString_insert_def unicode_def Let_def

subsection \<open>Facts about the string operations and the stripping\<close>

lemma QString_mid_prefix: "0 \<le> n \<Longrightarrow> QString_mid s 0 n = take (nat n) s"
  by (auto simp add: QString_mid_def QString_size_def Let_def)

lemma QString_mid_prefix_neg: "n < 0 \<Longrightarrow> QString_mid s 0 n = s"
  by (simp add: QString_mid_def QString_size_def Let_def)

lemma QString_mid_suffix: "0 \<le> p \<Longrightarrow> QString_mid s p (- 1) = drop (nat p) s"
  by (auto simp add: QString_mid_def QString_size_def Let_def)

lemma QString_insert_inside:
  "0 \<le> i \<Longrightarrow> i \<le> QString_size s \<Longrightarrow> QString_insert s i c = take (nat i) s @ c # drop (nat i) s"
  by (simp add: QString_insert_def QString_size_def Let_def)

lemma isDigit_space [simp]: "\<not> isDigit CHR '' ''"
  by (simp add: isDigit_def unicode_def)

lemma isDigit_slash [simp]: "\<not> isDigit CHR ''/''"
  by (simp add: isDigit_def unicode_def)

lemma filter_take_drop: "filter P (take n s) @ filter P (drop n s) = filter P s"
  by (metis append_take_drop_id filter_append)

lemma RemoveNonNumbers_insert:
  "\<not> isDigit c \<Longrightarrow> RemoveNonNumbers (QString_insert s i c) = RemoveNonNumbers s"
  unfolding RemoveNonNumbers_def QString_insert_def Let_def
  by (simp add: filter_take_drop)

lemma take_Suc_insert:
  "i \<le> p \<Longrightarrow> i \<le> length v \<Longrightarrow>
     take (Suc p) (take i v @ c # drop i v) = take i v @ c # take (p - i) (drop i v)"
  by (simp add: min_def Suc_diff_le)

lemma take_split: "i \<le> p \<Longrightarrow> take p v = take i v @ take (p - i) (drop i v)"
  by (metis le_add_diff_inverse take_add)

lemma card_loop_digits:
  "RemoveNonNumbers (value (card_loop groups pos st)) = RemoveNonNumbers (value st)"
proof (induction groups arbitrary: pos st)
  case Nil
  show ?case by simp
next
  case (Cons len groups)
  show ?case
    by (simp add: Let_def Cons.IH RemoveNonNumbers_insert)
qed

lemma digits_before_insert:
  assumes "0 \<le> i" "i \<le> QString_size v" "\<not> isDigit c"
  shows "RemoveNonNumbers (QString_mid (QString_insert v i c) 0 (if i \<le> p then p + 1 else p))
       = RemoveNonNumbers (QString_mid v 0 p)"
proof (cases "p < 0")
  case True
  with assms show ?thesis
    by (simp add: QString_mid_prefix_neg RemoveNonNumbers_insert)
next
  case nonneg: False
  show ?thesis
  proof (cases "i \<le> p")
    case True
    have le: "nat i \<le> nat p" "nat i \<le> length v"
      using assms True by (simp_all add: QString_size_def)
    have "nat (p + 1) = Suc (nat p)"
      using nonneg by simp
    then have "take (nat (p + 1)) (take (nat i) v @ c # drop (nat i) v)
        = take (nat i) v @ c # take (nat p - nat i) (drop (nat i) v)"
      using le by (simp only: take_Suc_insert)
    moreover have "take (nat p) v = take (nat i) v @ take (nat p - nat i) (drop (nat i) v)"
      using le by (simp only: take_split)
    ultimately show ?thesis
      using assms True nonneg
      by (simp add: QString_mid_prefix QString_insert_inside RemoveNonNumbers_def)
  next
    case False
    with assms nonneg show ?thesis
      by (simp add: QString_mid_prefix QString_insert_inside QString_size_def)
  qed
qed

lemma card_loop_NumbersOnlyState:
  "0 \<le> pos \<Longrightarrow> \<forall>g\<in>set groups. 0 \<le> g \<Longrightarrow>
     NumbersOnlyState (card_loop groups pos st) = NumbersOnlyState st"
proof (induction groups arbitrary: pos st)
  case Nil
  show ?case by simp
next
  case (Cons len groups)
  let ?pos1 = "pos + len"
  have pos1: "0 \<le> ?pos1" and rest: "\<forall>g\<in>set groups. 0 \<le> g"
    using Cons.prems by simp_all
  show ?case
  proof (cases "?pos1 \<ge> QString_size (value st)")
    case True
    then show ?thesis by simp
  next
    case False
    let ?moved = "\<lparr>value = QString_insert (value st) ?pos1 CHR '' '',
                   position = (if ?pos1 \<le> position st then position st + 1 else position st)\<rparr>"
    have "card_loop (len # groups) pos st = card_loop groups (?pos1 + 1) ?moved"
      using False by (cases st) (simp add: Let_def)
    moreover have "NumbersOnlyState (card_loop groups (?pos1 + 1) ?moved) = NumbersOnlyState ?moved"
      using pos1 rest by (intro Cons.IH) simp_all
    moreover have "NumbersOnlyState ?moved = NumbersOnlyState st"
      using pos1 False digits_before_insert [of ?pos1 "value st" "CHR '' ''" "position st"]
      by (simp add: NumbersOnlyState_def RemoveNonNumbers_insert)
    ultimately show ?thesis by simp
  qed
qed

lemma card_loop_bounds:
  "0 \<le> pos \<Longrightarrow> \<forall>g\<in>set groups. 0 \<le> g \<Longrightarrow>
   0 \<le> position st \<Longrightarrow> position st \<le> QString_size (value st) \<Longrightarrow>
     0 \<le> position (card_loop groups pos st)
     \<and> position (card_loop groups pos st) \<le> QString_size (value (card_loop groups pos st))"
proof (induction groups arbitrary: pos st)
  case Nil
  then show ?case by simp
next
  case (Cons len groups)
  show ?case
  proof (cases "pos + len \<ge> QString_size (value st)")
    case True
    with Cons.prems show ?thesis by simp
  next
    case False
    have size: "QString_size (QString_insert (value st) (pos + len) CHR '' '') = QString_size (value st) + 1"
      using False Cons.prems by (simp add: QString_insert_inside) (simp add: QString_size_def)
    show ?thesis
      using False Cons.prems size
      by (simp add: Let_def Cons.IH)
  qed
qed

lemma NumbersOnlyState_stripped:
  "RemoveNonNumbers (value st) = value st \<Longrightarrow> 0 \<le> position st \<Longrightarrow>
   position st \<le> QString_size (value st) \<Longrightarrow> NumbersOnlyState st = st"
proof -
  assume digits: "RemoveNonNumbers (value st) = value st"
    and lo: "0 \<le> position st" and hi: "position st \<le> QString_size (value st)"
  have "\<forall>c\<in>set (value st). isDigit c"
    using digits by (simp add: RemoveNonNumbers_def filter_id_conv)
  then have "\<forall>c\<in>set (take (nat (position st)) (value st)). isDigit c"
    by (meson in_set_takeD)
  then have "RemoveNonNumbers (take (nat (position st)) (value st)) = take (nat (position st)) (value st)"
    by (simp add: RemoveNonNumbers_def)
  then show ?thesis
    using digits lo hi
    by (simp add: NumbersOnlyState_def QString_mid_prefix QString_size_def)
qed


lemma QString_at_take: "i < int n \<Longrightarrow> QString_at (take n v) i = QString_at v i"
  by (auto simp add: QString_at_def QString_size_def)

lemma month_over_12_length: "month_over_12 v \<Longrightarrow> 2 \<le> length v"
  by (cases v; cases "tl v") (auto simp add: QString_at_def QString_size_def unicode_def)

lemma month_needs_zero_nonempty: "month_needs_zero v \<Longrightarrow> v \<noteq> []"
  by (auto simp add: QString_at_def QString_size_def unicode_def)

lemma Expire_keep2:
  "month_over_12 v \<Longrightarrow>
     PostprocessExpireDateValidateResult \<lparr>value = v, position = p\<rparr>
       = \<lparr>value = take 2 v, position = p\<rparr>"
  by (auto simp add: PostprocessExpireDateValidateResult_def QString_mid_prefix
      QString_at_def QString_size_def)

lemma Expire_short:
  "\<not> month_over_12 v \<Longrightarrow> \<not> month_needs_zero v \<Longrightarrow> length v < 2 \<Longrightarrow>
     PostprocessExpireDateValidateResult \<lparr>value = v, position = p\<rparr>
       = \<lparr>value = v, position = p\<rparr>"
  by (auto simp add: PostprocessExpireDateValidateResult_def QString_size_def)

lemma Expire_slash_zero:
  "month_needs_zero v \<Longrightarrow>
     PostprocessExpireDateValidateResult \<lparr>value = v, position = p\<rparr>
       = \<lparr>value = QString_insert (take 4 (CHR ''0'' # v)) 2 CHR ''/'',
          position = (if 2 \<le> p + 1 then p + 1 + 1 else p + 1)\<rparr>"
proof -
  assume zero: "month_needs_zero v"
  then have "v \<noteq> []" and "QString_at v 0 \<noteq> CHR ''1''"
    by (auto simp add: month_needs_zero_nonempty)
  with zero show ?thesis
    by (auto simp add: PostprocessExpireDateValidateResult_def QString_mid_prefix
        QString_size_def Let_def)
qed

lemma Expire_slash_plain:
  "\<not> month_over_12 v \<Longrightarrow> \<not> month_needs_zero v \<Longrightarrow> 2 \<le> length v \<Longrightarrow>
     PostprocessExpireDateValidateResult \<lparr>value = v, position = p\<rparr>
       = \<lparr>value = QString_insert (take 4 v) 2 CHR ''/'',
          position = (if 2 \<le> p then p + 1 else p)\<rparr>"
  by (auto simp add: PostprocessExpireDateValidateResult_def QString_mid_prefix QString_size_def Let_def)


lemma NumbersOnlyState_slash:
  assumes "2 \<le> length w"
  shows "NumbersOnlyState \<lparr>value = QString_insert w 2 CHR ''/'',
                           position = (if 2 \<le> q then q + 1 else q)\<rparr>
       = NumbersOnlyState \<lparr>value = w, position = q\<rparr>"
  using assms digits_before_insert [of 2 w "CHR ''/''" q]
  by (simp add: NumbersOnlyState_def RemoveNonNumbers_insert QString_size_def)

lemma slash_fixed_point:
  assumes good: "\<not> month_over_12 w" "\<not> month_needs_zero w" "2 \<le> length w" "length w \<le> 4"
    and digits: "RemoveNonNumbers w = w"
    and y: "y = \<lparr>value = QString_insert w 2 CHR ''/'',
                  position = (if 2 \<le> q then q + 1 else q)\<rparr>"
  shows "value (PostprocessExpireDateValidateResult (NumbersOnlyState y)) = value y
     \<and> (0 \<le> position y \<and> position y \<le> QString_size (value y) \<longrightarrow>
          PostprocessExpireDateValidateResult (NumbersOnlyState y) = y)"
proof -
  let ?q' = "QString_size (RemoveNonNumbers (QString_mid w 0 q))"
  have strip: "NumbersOnlyState y = \<lparr>value = w, position = ?q'\<rparr>"
    using good(3) digits by (simp add: y NumbersOnlyState_slash) (simp add: NumbersOnlyState_def)
  have again: "PostprocessExpireDateValidateResult \<lparr>value = w, position = c\<rparr>
      = \<lparr>value = QString_insert w 2 CHR ''/'', position = (if 2 \<le> c then c + 1 else c)\<rparr>" for c
    using good by (simp add: Expire_slash_plain)
  have val: "value (PostprocessExpireDateValidateResult (NumbersOnlyState y)) = value y"
    unfolding strip again by (simp add: y)
  have pos: "PostprocessExpireDateValidateResult (NumbersOnlyState y) = y"
    if "0 \<le> position y" "position y \<le> QString_size (value y)"
  proof -
    have size: "QString_size (QString_insert w 2 CHR ''/'') = QString_size w + 1"
      using good(3) by (simp add: QString_insert_inside QString_size_def)
    have "2 \<le> QString_size w"
      using good(3) by (simp add: QString_size_def)
    then have "0 \<le> q" "q \<le> QString_size w"
      using that size by (simp_all add: y split: if_splits)
    then have "NumbersOnlyState \<lparr>value = w, position = q\<rparr> = \<lparr>value = w, position = q\<rparr>"
      using digits by (simp add: NumbersOnlyState_stripped)
    then have "?q' = q"
      by (simp add: NumbersOnlyState_def)
    then show ?thesis
      unfolding strip again by (simp add: y)
  qed
  from val pos show ?thesis by blast
qed

lemma RemoveNonNumbers_take:
  "RemoveNonNumbers v = v \<Longrightarrow> RemoveNonNumbers (take n v) = take n v"
proof -
  assume "RemoveNonNumbers v = v"
  then have "\<forall>c\<in>set v. isDigit c"
    by (simp add: RemoveNonNumbers_def filter_id_conv)
  then have "\<forall>c\<in>set (take n v). isDigit c"
    by (meson in_set_takeD)
  then show ?thesis
    by (simp add: RemoveNonNumbers_def)
qed

lemma isDigit_zero [simp]: "isDigit CHR ''0''"
  by (simp add: isDigit_def unicode_def)

lemma Expire_fixed_point:
  assumes digits: "RemoveNonNumbers (value x) = value x"
  shows "value (PostprocessExpireDateValidateResult
                  (NumbersOnlyState (PostprocessExpireDateValidateResult x)))
           = value (PostprocessExpireDateValidateResult x)
     \<and> (0 \<le> position (PostprocessExpireDateValidateResult x)
          \<and> position (PostprocessExpireDateValidateResult x)
              \<le> QString_size (value (PostprocessExpireDateValidateResult x)) \<longrightarrow>
          PostprocessExpireDateValidateResult
            (NumbersOnlyState (PostprocessExpireDateValidateResult x))
           = PostprocessExpireDateValidateResult x)"
proof -
  obtain v p where x: "x = \<lparr>value = v, position = p\<rparr>"
    by (cases x) auto
  have dv: "RemoveNonNumbers v = v"
    using digits by (simp add: x)
  consider (over) "month_over_12 v"
    | (zero) "month_needs_zero v"
    | (plain) "\<not> month_over_12 v" "\<not> month_needs_zero v" "2 \<le> length v"
    | (short) "\<not> month_over_12 v" "\<not> month_needs_zero v" "length v < 2"
    by linarith
  then show ?thesis
  proof cases
    case over
    let ?w = "take 2 v"
    let ?c = "QString_size (RemoveNonNumbers (QString_mid ?w 0 p))"
    have len: "2 \<le> length v"
      using over by (rule month_over_12_length)
    have first: "PostprocessExpireDateValidateResult x = \<lparr>value = ?w, position = p\<rparr>"
      using over by (simp add: x Expire_keep2)
    have dw: "RemoveNonNumbers ?w = ?w"
      using dv by (rule RemoveNonNumbers_take)
    have strip: "NumbersOnlyState \<lparr>value = ?w, position = p\<rparr> = \<lparr>value = ?w, position = ?c\<rparr>"
      using dw by (simp add: NumbersOnlyState_def)
    have "month_over_12 ?w"
      using over by (simp add: QString_at_take)
    then have again: "PostprocessExpireDateValidateResult \<lparr>value = ?w, position = ?c\<rparr>
        = \<lparr>value = ?w, position = ?c\<rparr>"
      by (simp add: Expire_keep2)
    have "?c = p" if "0 \<le> p" "p \<le> QString_size ?w"
      using that dw NumbersOnlyState_stripped [of "\<lparr>value = ?w, position = p\<rparr>"] strip
      by simp
    then show ?thesis
      unfolding first strip again by simp
  next
    case zero
    let ?w = "take 4 (CHR ''0'' # v)"
    have "v \<noteq> []"
      using zero by (rule month_needs_zero_nonempty)
    then have len: "2 \<le> length ?w" "length ?w \<le> 4"
      by (cases v, simp_all)+
    have "QString_at ?w 0 = CHR ''0''"
      by (simp add: QString_at_def QString_size_def)
    then have good: "\<not> month_over_12 ?w" "\<not> month_needs_zero ?w"
      by (simp_all add: unicode_def)
    have dw: "RemoveNonNumbers ?w = ?w"
      using dv RemoveNonNumbers_take [of "CHR ''0'' # v" 4] by (simp add: RemoveNonNumbers_def)
    have first: "PostprocessExpireDateValidateResult x
        = \<lparr>value = QString_insert ?w 2 CHR ''/'',
           position = (if 2 \<le> p + 1 then p + 1 + 1 else p + 1)\<rparr>"
      unfolding x using zero by (rule Expire_slash_zero)
    show ?thesis
      using slash_fixed_point [OF good len dw first] by simp
  next
    case plain
    let ?w = "take 4 v"
    have len: "2 \<le> length ?w" "length ?w \<le> 4"
      using plain(3) by simp_all
    have good: "\<not> month_over_12 ?w" "\<not> month_needs_zero ?w"
      using plain by (simp_all add: QString_at_take)
    have dw: "RemoveNonNumbers ?w = ?w"
      using dv by (rule RemoveNonNumbers_take)
    have first: "PostprocessExpireDateValidateResult x
        = \<lparr>value = QString_insert ?w 2 CHR ''/'', position = (if 2 \<le> p then p + 1 else p)\<rparr>"
      unfolding x using plain by (rule Expire_slash_plain)
    show ?thesis
      using slash_fixed_point [OF good len dw first] by simp
  next
    case short
    let ?c = "QString_size (RemoveNonNumbers (QString_mid v 0 p))"
    have first: "PostprocessExpireDateValidateResult x = x"
      using short by (simp add: x Expire_short)
    have strip: "NumbersOnlyState x = \<lparr>value = v, position = ?c\<rparr>"
      using dv by (simp add: x NumbersOnlyState_def)
    have again: "PostprocessExpireDateValidateResult \<lparr>value = v, position = ?c\<rparr>
        = \<lparr>value = v, position = ?c\<rparr>"
      using short by (simp add: Expire_short)
    have "?c = p" if "0 \<le> p" "p \<le> QString_size v"
      using that dv NumbersOnlyState_stripped [of x] strip by (simp add: x)
    then show ?thesis
      unfolding first strip again by (simp add: x)
  qed
qed

lemma Expire_digits:
  "RemoveNonNumbers (value (PostprocessExpireDateValidateResult x))
     = RemoveNonNumbers
         (if month_over_12 (value x) then take 2 (value x)
          else if month_needs_zero (value x) then take 4 (CHR ''0'' # value x)
          else take 4 (value x))"
proof -
  obtain v p where x: "x = \<lparr>value = v, position = p\<rparr>"
    by (cases x) auto
  consider (over) "month_over_12 v"
    | (zero) "month_needs_zero v"
    | (plain) "\<not> month_over_12 v" "\<not> month_needs_zero v" "2 \<le> length v"
    | (short) "\<not> month_over_12 v" "\<not> month_needs_zero v" "length v < 2"
    by linarith
  then show ?thesis
  proof cases
    case over
    then show ?thesis by (simp add: x Expire_keep2)
  next
    case zero
    then have "QString_at v 0 \<noteq> CHR ''1''"
      by auto
    with zero show ?thesis
      by (simp add: x Expire_slash_zero RemoveNonNumbers_insert)
  next
    case plain
    have "PostprocessExpireDateValidateResult x
        = \<lparr>value = QString_insert (take 4 v) 2 CHR ''/'', position = (if 2 \<le> p then p + 1 else p)\<rparr>"
      unfolding x using plain by (rule Expire_slash_plain)
    then show ?thesis
      using plain(1,2) by (auto simp add: x RemoveNonNumbers_insert)
  next
    case short
    have "PostprocessExpireDateValidateResult x = x"
      unfolding x using short by (rule Expire_short)
    then show ?thesis
      using short by (auto simp add: x)
  qed
qed

subsection \<open>Facts about the classifiers and the reconstruction\<close>

lemma IsBackspace_take_drop:
  "IsBackspace r \<longleftrightarrow>
      wasAnchor r = wasPosition r
      \<and> wasPosition r = nowPosition r + 1
      \<and> take (nat (wasPosition r - 1)) (wasValue r) = take (nat (nowPosition r)) (nowValue r)
      \<and> drop (nat (wasPosition r)) (wasValue r) = drop (nat (nowPosition r)) (nowValue r)"
  by (auto simp add: IsBackspace_def qt_defs)

lemma IsDelete_take_drop:
  "IsDelete r \<longleftrightarrow>
      wasAnchor r = wasPosition r
      \<and> wasPosition r = nowPosition r
      \<and> take (nat (wasPosition r)) (wasValue r) = take (nat (nowPosition r)) (nowValue r)
      \<and> drop (nat (wasPosition r + 1)) (wasValue r) = drop (nat (nowPosition r)) (nowValue r)"
  by (auto simp add: IsDelete_def qt_defs)

lemma IsBackspace_not_IsDelete: "IsBackspace r \<Longrightarrow> \<not> IsDelete r"
  by (simp add: IsBackspace_def IsDelete_def)

lemma length_filter_take_le: "length (filter P (take n s)) \<le> length (filter P s)"
proof -
  have "length (filter P s) = length (filter P (take n s)) + length (filter P (drop n s))"
    by (metis append_take_drop_id filter_append length_append)
  then show ?thesis by simp
qed

lemma NumbersOnlyState_bounds:
  "0 \<le> position (NumbersOnlyState st)
   \<and> position (NumbersOnlyState st) \<le> QString_size (value (NumbersOnlyState st))"
proof (cases "0 \<le> position st")
  case True
  then show ?thesis
    by (simp add: NumbersOnlyState_def QString_mid_prefix QString_size_def RemoveNonNumbers_def
        length_filter_take_le)
next
  case False
  then show ?thesis
    by (simp add: NumbersOnlyState_def QString_mid_prefix_neg QString_size_def)
qed

lemma RemoveNonNumbers_drop:
  "RemoveNonNumbers v = v \<Longrightarrow> RemoveNonNumbers (drop n v) = drop n v"
proof -
  assume "RemoveNonNumbers v = v"
  then have "\<forall>c\<in>set v. isDigit c"
    by (simp add: RemoveNonNumbers_def filter_id_conv)
  then have "\<forall>c\<in>set (drop n v). isDigit c"
    by (meson in_set_dropD)
  then show ?thesis
    by (simp add: RemoveNonNumbers_def)
qed

lemma deleted_now_stripped:
  assumes digits: "RemoveNonNumbers was = was"
    and now_eq: "now = take n was @ drop (Suc n) was"
    and le: "n \<le> length was"
  shows "NumbersOnlyState \<lparr>value = now, position = int n\<rparr> = \<lparr>value = now, position = int n\<rparr>"
proof -
  have "RemoveNonNumbers now = RemoveNonNumbers (take n was) @ RemoveNonNumbers (drop (Suc n) was)"
    by (simp add: now_eq RemoveNonNumbers_def)
  then have "RemoveNonNumbers now = now"
    using digits by (simp add: RemoveNonNumbers_take RemoveNonNumbers_drop now_eq)
  moreover have "int n \<le> QString_size now"
    using le by (simp add: now_eq QString_size_def)
  ultimately show ?thesis
    by (simp add: NumbersOnlyState_stripped)
qed

lemma realNowState_digits_only:
  assumes digits: "RemoveNonNumbers (wasValue r) = wasValue r"
    and now0: "0 \<le> nowPosition r"
    and was_le: "wasPosition r \<le> QString_size (wasValue r)"
  shows "realNowState r = NumbersOnlyState \<lparr>value = nowValue r, position = nowPosition r\<rparr>"
proof -
  let ?was = "wasValue r" and ?now = "nowValue r"
  define n where "n = nat (nowPosition r)"
  have np: "nowPosition r = int n"
    using now0 by (simp add: n_def)
  consider (other) "\<not> IsBackspace r" "\<not> IsDelete r" | (bs) "IsBackspace r" | (del) "IsDelete r"
    by blast
  then show ?thesis
  proof cases
    case other
    then show ?thesis by (simp add: realNowState_def)
  next
    case bs
    then have nd: "\<not> IsDelete r"
      by (rule IsBackspace_not_IsDelete)
    from bs have q: "wasPosition r = int n + 1"
      and pre: "take n ?was = take n ?now"
      and suf: "drop (Suc n) ?was = drop n ?now"
      unfolding IsBackspace_take_drop np by (auto simp add: nat_add_distrib)
    have le: "Suc n \<le> length ?was"
      using was_le q by (simp add: QString_size_def)
    have "?now = take n ?now @ drop n ?now"
      by simp
    then have now_eq: "?now = take n ?was @ drop (Suc n) ?was"
      by (simp only: pre suf)
    have strip_was: "NumbersOnlyState \<lparr>value = ?was, position = int n + 1\<rparr>
        = \<lparr>value = ?was, position = int n + 1\<rparr>"
      using digits le by (simp add: NumbersOnlyState_stripped QString_size_def)
    have mid1: "QString_mid ?was 0 (int n) = take n ?was"
      by (simp add: QString_mid_prefix)
    have mid2: "QString_mid ?was (int n + 1) (- 1) = drop (Suc n) ?was"
      by (simp add: QString_mid_suffix nat_add_distrib)
    have "realNowState r
        = \<lparr>value = (if 0 < n then take n ?was @ drop (Suc n) ?was else drop (Suc n) ?was),
           position = int n\<rparr>"
      using bs nd by (simp add: realNowState_def q strip_was mid1 mid2 QString_mid_suffix)
    then have "realNowState r = \<lparr>value = take n ?was @ drop (Suc n) ?was, position = int n\<rparr>"
      by (cases "n = 0") simp_all
    then have recon: "realNowState r = \<lparr>value = ?now, position = int n\<rparr>"
      by (simp only: now_eq [symmetric])
    have "NumbersOnlyState \<lparr>value = ?now, position = int n\<rparr> = \<lparr>value = ?now, position = int n\<rparr>"
      using digits now_eq le by (intro deleted_now_stripped [where was = "?was"]) simp_all
    with recon show ?thesis by (simp only: np)
  next
    case del
    from del have q: "wasPosition r = int n"
      and pre: "take n ?was = take n ?now"
      and suf: "drop (Suc n) ?was = drop n ?now"
      unfolding IsDelete_take_drop np by (auto simp add: nat_add_distrib)
    have le: "n \<le> length ?was"
      using was_le q by (simp add: QString_size_def)
    have "?now = take n ?now @ drop n ?now"
      by simp
    then have now_eq: "?now = take n ?was @ drop (Suc n) ?was"
      by (simp only: pre suf)
    have strip_was: "NumbersOnlyState \<lparr>value = ?was, position = int n\<rparr>
        = \<lparr>value = ?was, position = int n\<rparr>"
      using digits le by (simp add: NumbersOnlyState_stripped QString_size_def)
    have mid1: "QString_mid ?was 0 (int n) = take n ?was"
      by (simp add: QString_mid_prefix)
    have mid2: "QString_mid ?was (int n + 1) (- 1) = drop (Suc n) ?was"
      by (simp add: QString_mid_suffix nat_add_distrib)
    have "realNowState r = \<lparr>value = take n ?was @ drop (Suc n) ?was, position = int n\<rparr>"
      using del by (simp add: realNowState_def q strip_was mid1 mid2)
    then have recon: "realNowState r = \<lparr>value = ?now, position = int n\<rparr>"
      by (simp only: now_eq [symmetric])
    have "NumbersOnlyState \<lparr>value = ?now, position = int n\<rparr> = \<lparr>value = ?now, position = int n\<rparr>"
      using digits now_eq le by (intro deleted_now_stripped [where was = "?was"]) simp_all
    with recon show ?thesis by (simp only: np)
  qed
qed

lemma realNowState_bounds:
  "0 \<le> position (realNowState r)
   \<and> position (realNowState r) \<le> QString_size (value (realNowState r))"
proof -
  obtain v p where was: "NumbersOnlyState \<lparr>value = wasValue r, position = wasPosition r\<rparr>
      = \<lparr>value = v, position = p\<rparr>"
    by (cases "NumbersOnlyState \<lparr>value = wasValue r, position = wasPosition r\<rparr>") auto
  have bounds: "0 \<le> p" "p \<le> int (length v)"
    using NumbersOnlyState_bounds [of "\<lparr>value = wasValue r, position = wasPosition r\<rparr>"]
    by (simp_all add: was QString_size_def)
  consider (other) "\<not> IsBackspace r" "\<not> IsDelete r" | (del) "IsDelete r"
    | (bs) "IsBackspace r" "\<not> IsDelete r"
    by blast
  then show ?thesis
  proof cases
    case other
    then show ?thesis
      using NumbersOnlyState_bounds [of "\<lparr>value = nowValue r, position = nowPosition r\<rparr>"]
      by (simp add: realNowState_def)
  next
    case del
    have "QString_mid v (p + 1) (- 1) = drop (nat (p + 1)) v"
      using bounds by (simp add: QString_mid_suffix)
    then show ?thesis
      using del bounds
      by (simp add: realNowState_def was QString_mid_prefix QString_size_def)
  next
    case bs
    then show ?thesis
      using bounds
      by (auto simp add: realNowState_def was QString_mid_prefix QString_mid_suffix
          QString_size_def Let_def)
  qed
qed

subsection \<open>Worked inputs of the formatters\<close>

text \<open>
  C4, as the claim states it: the sixteen digits \<open>4242424242424242\<close> with the group lengths
  \<open>[4,4,4,4,4]\<close> and the stripped cursor at 8 would come out with the cursor at 9. The
  formatter puts it at 10, so the stated offset is refuted.
\<close>

theorem card_grouping_cursor_is_not_9:
  "position (PostprocessCardValidateResult (\<lambda>_. [4, 4, 4, 4, 4])
       \<lparr>value = ''4242424242424242'', position = 8\<rparr>) \<noteq> 9"
  by (simp add: PostprocessCardValidateResult_def qt_defs)

text \<open>
  C4, amended: the sixteen digits \<open>4242424242424242\<close> with the group lengths \<open>[4,4,4,4,4]\<close>
  are displayed as \<open>4242 4242 4242 4242\<close>, and a stripped cursor at 8 lands at display offset
  10: two spaces are counted, the one after the first group and the one inserted exactly
  at the cursor (the test of line 62 is \<open>\<ge>\<close>).
\<close>

theorem card_grouping_example:
  "PostprocessCardValidateResult (\<lambda>_. [4, 4, 4, 4, 4])
       \<lparr>value = ''4242424242424242'', position = 8\<rparr>
     = \<lparr>value = ''4242 4242 4242 4242'', position = 10\<rparr>"
  by (simp add: PostprocessCardValidateResult_def qt_defs)

text \<open>
  C5, as the claim states it: the stripped \<open>3\<close> would become \<open>03\<close>. The formatter returns a
  three-character value, so the stated value is refuted.
\<close>

theorem expire_single_3_is_not_03:
  "value (PostprocessExpireDateValidateResult \<lparr>value = ''3'', position = 1\<rparr>) \<noteq> ''03''"
  by (simp add: PostprocessExpireDateValidateResult_def qt_defs)

text \<open>
  C5, amended: the stripped \<open>3\<close> becomes \<open>03/\<close>: the zero is prepended and, the value now
  having two characters, the separator follows at once. A cursor after the digit moves from
  1 to 3 (past the zero and the separator), a cursor before it from 0 to 1. The stripped
  \<open>035\<close> becomes \<open>03/5\<close>, wherever the cursor is.
\<close>

theorem expire_month_correction:
  "PostprocessExpireDateValidateResult \<lparr>value = ''3'', position = 1\<rparr>
      = \<lparr>value = ''03/'', position = 3\<rparr>
   \<and> PostprocessExpireDateValidateResult \<lparr>value = ''3'', position = 0\<rparr>
      = \<lparr>value = ''03/'', position = 1\<rparr>
   \<and> value (PostprocessExpireDateValidateResult \<lparr>value = ''035'', position = p\<rparr>)
      = ''03/5''"
  by (simp add: PostprocessExpireDateValidateResult_def qt_defs)

text \<open>
  C6, as the claim states it: the stripped \<open>13\<close> would be cut to \<open>1\<close>. The formatter keeps
  both digits, so the stated value is refuted.
\<close>

theorem expire_13_is_not_cut_to_1:
  "value (PostprocessExpireDateValidateResult \<lparr>value = ''13'', position = 2\<rparr>) \<noteq> ''1''"
  by (simp add: PostprocessExpireDateValidateResult_def qt_defs)

text \<open>
  C6, amended: the stripped \<open>13\<close> stays \<open>13\<close>, with no separator and the cursor where it
  was: line 75 keeps the first two characters. What is dropped is everything after the
  second digit: \<open>135\<close> becomes \<open>13\<close>.
\<close>

theorem expire_13_kept:
  "PostprocessExpireDateValidateResult \<lparr>value = ''13'', position = p\<rparr>
      = \<lparr>value = ''13'', position = p\<rparr>
   \<and> PostprocessExpireDateValidateResult \<lparr>value = ''135'', position = p\<rparr>
      = \<lparr>value = ''13'', position = p\<rparr>"
  by (simp add: PostprocessExpireDateValidateResult_def qt_defs)

subsection \<open>Where cursor and reads leave the string\<close>

text \<open>
  C1 at a failing input. The expiry field shows \<open>12/34\<close> with the cursor at its end and the
  user types \<open>5\<close>: the request is neither a backspace nor a delete, its stripped state is
  \<open>12345\<close> with the cursor at 5, line 83 cuts the value to four digits and lines 85 to 88
  move the cursor past the separator. The validator answers with the value \<open>12/34\<close>, five
  characters long, and the cursor 6.
\<close>

theorem expire_validator_cursor_past_end:
  "ExpireDateValidator ValidateExpireDate
       \<lparr>wasValue = ''12/34'', wasPosition = 5, wasAnchor = 5,
        nowValue = ''12/345'', nowPosition = 6\<rparr>
     = \<lparr>result_value = ''12/34'', result_position = 6,
        invalid = (state (ValidateExpireDate ''12345'') = Invalid),
        finished = verdict_finished (ValidateExpireDate ''12345'')\<rparr>
   \<and> \<not> result_position (ExpireDateValidator ValidateExpireDate
            \<lparr>wasValue = ''12/34'', wasPosition = 5, wasAnchor = 5,
             nowValue = ''12/345'', nowPosition = 6\<rparr>)
        \<le> QString_size (result_value (ExpireDateValidator ValidateExpireDate
            \<lparr>wasValue = ''12/34'', wasPosition = 5, wasAnchor = 5,
             nowValue = ''12/345'', nowPosition = 6\<rparr>))"
  by (simp add: ExpireDateValidator_def ComplexNumberValidator_def realNowState_def
      IsBackspace_def IsDelete_def NumbersOnlyState_def RemoveNonNumbers_def isDigit_def
      PostprocessExpireDateValidateResult_def qt_defs)

text \<open>
  C7 at a failing input. On the stripped value \<open>1\<close> (one character) the expiry formatter
  reads index 0, finds \<^verbatim>\<open>'1'\<close> and goes on to read index 1 of a string of size 1, then
  index 0 again: the second read is outside the string. It is the only such value: every
  read of the formatter is within the string exactly when the value is not \<open>1\<close>.
\<close>

theorem expire_reads_past_end:
  "PostprocessExpireDate_reads \<lparr>value = ''1'', position = p\<rparr> = [(0, 1), (1, 1), (0, 1)]
   \<and> \<not> read_in_bounds (1, 1)
   \<and> (list_all read_in_bounds (PostprocessExpireDate_reads st) \<longleftrightarrow> value st \<noteq> ''1'')"
proof -
  have "list_all read_in_bounds (PostprocessExpireDate_reads st) \<longleftrightarrow> value st \<noteq> ''1''"
  proof (cases "value st")
    case Nil
    then show ?thesis
      by (simp add: PostprocessExpireDate_reads_def)
  next
    case (Cons a rest)
    then show ?thesis
      by (cases rest)
         (auto simp add: PostprocessExpireDate_reads_def read_in_bounds_def qt_defs)
  qed
  then show ?thesis
    by (simp add: PostprocessExpireDate_reads_def read_in_bounds_def qt_defs)
qed

subsection \<open>The edit classifier\<close>

text \<open>
  C8. \<open>IsBackspace\<close> holds exactly when the before snapshot has no selection, its cursor is
  one more than the after cursor, the text before index \<open>wasPosition - 1\<close> of the before
  value equals the text before the after cursor, and the text from \<open>wasPosition\<close> on equals
  the after text from its cursor on (prefixes and suffixes as \<open>take\<close> and \<open>drop\<close>, for every
  request). The request from \<open>1234\<close> with cursor and anchor at 4 to \<open>123\<close> with the cursor at
  3 is a backspace.
\<close>

theorem IsBackspace_iff:
  "(IsBackspace r \<longleftrightarrow>
      wasAnchor r = wasPosition r
      \<and> wasPosition r = nowPosition r + 1
      \<and> take (nat (wasPosition r - 1)) (wasValue r) = take (nat (nowPosition r)) (nowValue r)
      \<and> drop (nat (wasPosition r)) (wasValue r) = drop (nat (nowPosition r)) (nowValue r))
   \<and> IsBackspace \<lparr>wasValue = ''1234'', wasPosition = 4, wasAnchor = 4,
                   nowValue = ''123'', nowPosition = 3\<rparr>"
  by (auto simp add: IsBackspace_def qt_defs)

subsection \<open>Digits kept by the formatters\<close>

text \<open>
  C2, as the claim states it: the digits of the expiry formatter's output would be, as a
  multiset, the digits it was given. On \<open>12345\<close> the fifth digit is dropped, and on \<open>3\<close> a
  zero is added, so the claim is refuted for the expiry formatter.
\<close>

theorem expire_drops_and_adds_digits:
  "mset (RemoveNonNumbers
       (value (PostprocessExpireDateValidateResult \<lparr>value = ''12345'', position = 5\<rparr>)))
     \<noteq> mset (RemoveNonNumbers ''12345'')
   \<and> mset (RemoveNonNumbers
       (value (PostprocessExpireDateValidateResult \<lparr>value = ''3'', position = 1\<rparr>)))
     \<noteq> mset (RemoveNonNumbers ''3'')"
  by (simp add: PostprocessExpireDateValidateResult_def RemoveNonNumbers_def isDigit_def qt_defs)

text \<open>
  C2, amended. The card-number formatter keeps the digits: for every input and every
  grouping, the digits of its output are the digits of its input (as a multiset; the loop
  inserts spaces only). The expiry-date formatter keeps the digits of a part of its input:
  of the first two characters when the value starts with \<^verbatim>\<open>'1'\<close> followed by a character
  above \<^verbatim>\<open>'2'\<close>; otherwise of the first four characters, after a \<^verbatim>\<open>'0'\<close> prepended when the
  first character is above \<^verbatim>\<open>'1'\<close>. So it keeps the multiset of digits whenever no zero is
  prepended and the value is no longer than what is kept (two characters in the first case,
  four otherwise).
\<close>

theorem formatter_digits:
  "mset (RemoveNonNumbers (value (PostprocessCardValidateResult CardNumberFormat x)))
     = mset (RemoveNonNumbers (value x))
   \<and> RemoveNonNumbers (value (PostprocessExpireDateValidateResult x))
     = RemoveNonNumbers
         (if month_over_12 (value x) then take 2 (value x)
          else if month_needs_zero (value x) then take 4 (CHR ''0'' # value x)
          else take 4 (value x))
   \<and> (\<not> month_needs_zero (value x)
        \<and> int (length (value x)) \<le> (if month_over_12 (value x) then 2 else 4) \<longrightarrow>
      mset (RemoveNonNumbers (value (PostprocessExpireDateValidateResult x)))
        = mset (RemoveNonNumbers (value x)))"
  by (simp add: PostprocessCardValidateResult_def card_loop_digits Expire_digits)

text \<open>The amended C2 at the stripped value \<open>1234\<close>, which is displayed as \<open>12/34\<close>.\<close>

theorem formatter_digits_witness:
  "\<not> month_needs_zero ''1234'' \<and> \<not> month_over_12 ''1234''
   \<and> int (length ''1234'') \<le> 4
   \<and> value (PostprocessExpireDateValidateResult \<lparr>value = ''1234'', position = 4\<rparr>) = ''12/34''
   \<and> mset (RemoveNonNumbers
        (value (PostprocessExpireDateValidateResult \<lparr>value = ''1234'', position = 4\<rparr>)))
        = mset (RemoveNonNumbers ''1234'')"
  using formatter_digits [of "\<lambda>_. [4, 4, 4, 4]" "\<lparr>value = ''1234'', position = 4\<rparr>"]
  by (simp add: PostprocessExpireDateValidateResult_def qt_defs)

subsection \<open>Formatting again\<close>

text \<open>
  C3, as the claim states it: applying a formatter to its own output would change nothing.
  The expiry formatter turns \<open>1234\<close> into \<open>12/34\<close> and that into \<open>12//3\<close>; the card formatter
  with groups of four turns \<open>12345\<close> into \<open>1234 5\<close> and that into \<open>1234  5\<close>. Both formatters
  expect stripped input and insert their separators again.
\<close>

theorem expire_format_twice_differs:
  "PostprocessExpireDateValidateResult
     (PostprocessExpireDateValidateResult \<lparr>value = ''1234'', position = 0\<rparr>)
   \<noteq> PostprocessExpireDateValidateResult \<lparr>value = ''1234'', position = 0\<rparr>
  \<and> PostprocessCardValidateResult (\<lambda>_. [4, 4, 4, 4])
     (PostprocessCardValidateResult (\<lambda>_. [4, 4, 4, 4]) \<lparr>value = ''12345'', position = 0\<rparr>)
   \<noteq> PostprocessCardValidateResult (\<lambda>_. [4, 4, 4, 4]) \<lparr>value = ''12345'', position = 0\<rparr>"
  by (simp add: PostprocessExpireDateValidateResult_def PostprocessCardValidateResult_def qt_defs)

text \<open>
  C3, amended: what the validators do with a formatted value is strip it first, and that
  round is stable. For a stripped (digits only) state \<open>x\<close>: stripping the expiry formatter's
  output and formatting again gives the same value, and the same cursor as well whenever the
  formatter left the cursor within its value; stripping the card formatter's output and
  formatting again gives the same value and cursor, for a cursor within the value and group
  lengths that are not negative.
\<close>

theorem strip_then_format_fixed_point:
  assumes "RemoveNonNumbers (value x) = value x"
  shows "value (PostprocessExpireDateValidateResult
                  (NumbersOnlyState (PostprocessExpireDateValidateResult x)))
           = value (PostprocessExpireDateValidateResult x)
     \<and> (0 \<le> position (PostprocessExpireDateValidateResult x)
          \<and> position (PostprocessExpireDateValidateResult x)
              \<le> QString_size (value (PostprocessExpireDateValidateResult x)) \<longrightarrow>
          PostprocessExpireDateValidateResult
            (NumbersOnlyState (PostprocessExpireDateValidateResult x))
           = PostprocessExpireDateValidateResult x)
     \<and> (0 \<le> position x \<and> position x \<le> QString_size (value x)
          \<and> (\<forall>g\<in>set (CardNumberFormat (value x)). 0 \<le> g) \<longrightarrow>
          PostprocessCardValidateResult CardNumberFormat
            (NumbersOnlyState (PostprocessCardValidateResult CardNumberFormat x))
           = PostprocessCardValidateResult CardNumberFormat x)"
proof -
  have "NumbersOnlyState (PostprocessCardValidateResult CardNumberFormat x) = x"
    if "0 \<le> position x" "position x \<le> QString_size (value x)"
       "\<forall>g\<in>set (CardNumberFormat (value x)). 0 \<le> g"
    using that assms
    by (simp add: PostprocessCardValidateResult_def card_loop_NumbersOnlyState
        NumbersOnlyState_stripped)
  then show ?thesis
    using Expire_fixed_point [OF assms] by simp
qed

text \<open>
  The amended C3 at the stripped value \<open>123456\<close> with the cursor at 4, grouped by four:
  the expiry formatter displays \<open>12/34\<close> with the cursor at 5, the card formatter \<open>1234 56\<close>
  with the cursor at 5, and both come back from stripping and formatting again.
\<close>

theorem strip_then_format_fixed_point_witness:
  "RemoveNonNumbers ''123456'' = ''123456''
   \<and> PostprocessExpireDateValidateResult \<lparr>value = ''123456'', position = 4\<rparr>
       = \<lparr>value = ''12/34'', position = 5\<rparr>
   \<and> PostprocessExpireDateValidateResult (NumbersOnlyState \<lparr>value = ''12/34'', position = 5\<rparr>)
       = \<lparr>value = ''12/34'', position = 5\<rparr>
   \<and> PostprocessCardValidateResult (\<lambda>_. [4, 4, 4, 4]) \<lparr>value = ''123456'', position = 4\<rparr>
       = \<lparr>value = ''1234 56'', position = 5\<rparr>
   \<and> PostprocessCardValidateResult (\<lambda>_. [4, 4, 4, 4])
        (NumbersOnlyState \<lparr>value = ''1234 56'', position = 5\<rparr>)
       = \<lparr>value = ''1234 56'', position = 5\<rparr>"
proof -
  have digits: "RemoveNonNumbers ''123456'' = ''123456''"
    by (simp add: RemoveNonNumbers_def isDigit_def unicode_def)
  have expire: "PostprocessExpireDateValidateResult \<lparr>value = ''123456'', position = 4\<rparr>
       = \<lparr>value = ''12/34'', position = 5\<rparr>"
    by (simp add: PostprocessExpireDateValidateResult_def qt_defs)
  have card: "PostprocessCardValidateResult (\<lambda>_. [4, 4, 4, 4]) \<lparr>value = ''123456'', position = 4\<rparr>
       = \<lparr>value = ''1234 56'', position = 5\<rparr>"
    by (simp add: PostprocessCardValidateResult_def qt_defs)
  show ?thesis
    using strip_then_format_fixed_point
      [of "\<lparr>value = ''123456'', position = 4\<rparr>" "\<lambda>_. [4, 4, 4, 4]"] digits
    by (simp add: expire card QString_size_def)
qed

subsection \<open>Reconstructing the edit\<close>

text \<open>
  C9, as the claim states it: on a backspace with the stripped cursor \<open>p\<close> not above 1, the
  digit at the (clamped) cursor would be removed, the digit at index \<open>p\<close> as for a forward
  delete. Two backspace requests refute it. From \<open>1234\<close> with the cursor at 1 (\<open>p = 1\<close>)
  the reconstruction is \<open>234\<close>: index 0 is removed and the digit at the cursor, index 1,
  is kept, where the stated rule gives \<open>134\<close>. From \<open> 12\<close> with the cursor at 1, behind the
  leading space (\<open>p = 0\<close>), the reconstruction is \<open>12\<close>: nothing is removed although a
  digit stands at the cursor, where the stated rule gives \<open>2\<close>.
\<close>

theorem backspace_keeps_digit_at_cursor:
  "IsBackspace \<lparr>wasValue = ''1234'', wasPosition = 1, wasAnchor = 1,
                 nowValue = ''234'', nowPosition = 0\<rparr>
   \<and> NumbersOnlyState \<lparr>value = ''1234'', position = 1\<rparr> = \<lparr>value = ''1234'', position = 1\<rparr>
   \<and> value (realNowState \<lparr>wasValue = ''1234'', wasPosition = 1, wasAnchor = 1,
                           nowValue = ''234'', nowPosition = 0\<rparr>) = ''234''
   \<and> value (realNowState \<lparr>wasValue = ''1234'', wasPosition = 1, wasAnchor = 1,
                           nowValue = ''234'', nowPosition = 0\<rparr>)
       \<noteq> take 1 ''1234'' @ drop 2 ''1234''
   \<and> IsBackspace \<lparr>wasValue = '' 12'', wasPosition = 1, wasAnchor = 1,
                   nowValue = ''12'', nowPosition = 0\<rparr>
   \<and> NumbersOnlyState \<lparr>value = '' 12'', position = 1\<rparr> = \<lparr>value = ''12'', position = 0\<rparr>
   \<and> value (realNowState \<lparr>wasValue = '' 12'', wasPosition = 1, wasAnchor = 1,
                           nowValue = ''12'', nowPosition = 0\<rparr>) = ''12''
   \<and> value (realNowState \<lparr>wasValue = '' 12'', wasPosition = 1, wasAnchor = 1,
                           nowValue = ''12'', nowPosition = 0\<rparr>)
       \<noteq> take 0 ''12'' @ drop 1 ''12''"
  by (simp add: realNowState_def IsBackspace_def IsDelete_def NumbersOnlyState_def
      RemoveNonNumbers_def isDigit_def qt_defs)

text \<open>
  C9, amended. Let a request be classified as a backspace; it is then never classified as
  a delete. With \<open>v\<close> and \<open>p\<close> the numbers-only projection of the before snapshot (so
  \<open>0 \<le> p \<le> size v\<close>), the working state \<open>realNowState\<close> is built from \<open>v\<close>: whenever
  \<open>p \<ge> 1\<close> the digit immediately before the cursor, at index \<open>p - 1\<close>, is removed and the
  digit at the cursor is kept; when \<open>p = 0\<close> nothing is removed, whatever digits follow the
  cursor. The resulting cursor is \<open>p - 1\<close> floored at 0.
\<close>

theorem backspace_reconstruction:
  assumes "IsBackspace r"
    and "NumbersOnlyState \<lparr>value = wasValue r, position = wasPosition r\<rparr>
           = \<lparr>value = v, position = p\<rparr>"
  shows "\<not> IsDelete r
     \<and> 0 \<le> p \<and> p \<le> QString_size v
     \<and> value (realNowState r)
         = (if 1 \<le> p then take (nat (p - 1)) v @ drop (nat p) v else v)
     \<and> position (realNowState r) = max (p - 1) 0"
proof -
  have nd: "\<not> IsDelete r"
    using assms(1) by (rule IsBackspace_not_IsDelete)
  have bounds: "0 \<le> p" "p \<le> QString_size v"
    using NumbersOnlyState_bounds [of "\<lparr>value = wasValue r, position = wasPosition r\<rparr>"]
    by (simp_all add: assms(2))
  have "realNowState r
      = \<lparr>value = (if 1 < p then QString_mid v 0 (p - 1) @ QString_mid v p (- 1)
                  else QString_mid v p (- 1)),
         position = max (p - 1) 0\<rparr>"
    using assms(1) nd by (simp add: realNowState_def assms(2))
  moreover have "p = 0 \<or> p = 1" if "\<not> 1 < p"
    using that bounds(1) by linarith
  ultimately show ?thesis
    using nd bounds by (auto simp add: QString_mid_prefix QString_mid_suffix)
qed

text \<open>
  The amended C9 at three backspace requests, one for each range of the stripped cursor.
  The expiry field shows \<open>12/34\<close> with the cursor after the separator and the backspace
  deletes the separator: the projection is \<open>1234\<close> with \<open>p = 2\<close>, and the reconstruction
  removes the digit before the cursor, \<open>134\<close> with the cursor at 1. From \<open>1234\<close> with
  \<open>p = 1\<close> the first digit is removed, \<open>234\<close> with the cursor at 0. From \<open> 12\<close> with the
  cursor behind the space, \<open>p = 0\<close>, the value \<open>12\<close> is kept with the cursor at 0.
\<close>

theorem backspace_reconstruction_witness:
  "IsBackspace \<lparr>wasValue = ''12/34'', wasPosition = 3, wasAnchor = 3,
                 nowValue = ''1234'', nowPosition = 2\<rparr>
   \<and> NumbersOnlyState \<lparr>value = ''12/34'', position = 3\<rparr> = \<lparr>value = ''1234'', position = 2\<rparr>
   \<and> realNowState \<lparr>wasValue = ''12/34'', wasPosition = 3, wasAnchor = 3,
                    nowValue = ''1234'', nowPosition = 2\<rparr>
       = \<lparr>value = ''134'', position = 1\<rparr>
   \<and> IsBackspace \<lparr>wasValue = ''1234'', wasPosition = 1, wasAnchor = 1,
                   nowValue = ''234'', nowPosition = 0\<rparr>
   \<and> NumbersOnlyState \<lparr>value = ''1234'', position = 1\<rparr> = \<lparr>value = ''1234'', position = 1\<rparr>
   \<and> realNowState \<lparr>wasValue = ''1234'', wasPosition = 1, wasAnchor = 1,
                    nowValue = ''234'', nowPosition = 0\<rparr>
       = \<lparr>value = ''234'', position = 0\<rparr>
   \<and> IsBackspace \<lparr>wasValue = '' 12'', wasPosition = 1, wasAnchor = 1,
                   nowValue = ''12'', nowPosition = 0\<rparr>
   \<and> NumbersOnlyState \<lparr>value = '' 12'', position = 1\<rparr> = \<lparr>value = ''12'', position = 0\<rparr>
   \<and> realNowState \<lparr>wasValue = '' 12'', wasPosition = 1, wasAnchor = 1,
                    nowValue = ''12'', nowPosition = 0\<rparr>
       = \<lparr>value = ''12'', position = 0\<rparr>"
proof -
  let ?r2 = "\<lparr>wasValue = ''12/34'', wasPosition = 3, wasAnchor = 3,
              nowValue = ''1234'', nowPosition = 2\<rparr>"
  let ?r1 = "\<lparr>wasValue = ''1234'', wasPosition = 1, wasAnchor = 1,
              nowValue = ''234'', nowPosition = 0\<rparr>"
  let ?r0 = "\<lparr>wasValue = '' 12'', wasPosition = 1, wasAnchor = 1,
              nowValue = ''12'', nowPosition = 0\<rparr>"
  have bsp: "IsBackspace ?r2" "IsBackspace ?r1" "IsBackspace ?r0"
    by (simp_all add: IsBackspace_def qt_defs)
  have strip2: "NumbersOnlyState \<lparr>value = wasValue ?r2, position = wasPosition ?r2\<rparr>
      = \<lparr>value = ''1234'', position = 2\<rparr>"
    by (simp add: NumbersOnlyState_def RemoveNonNumbers_def isDigit_def qt_defs)
  have strip1: "NumbersOnlyState \<lparr>value = wasValue ?r1, position = wasPosition ?r1\<rparr>
      = \<lparr>value = ''1234'', position = 1\<rparr>"
    by (simp add: NumbersOnlyState_def RemoveNonNumbers_def isDigit_def qt_defs)
  have strip0: "NumbersOnlyState \<lparr>value = wasValue ?r0, position = wasPosition ?r0\<rparr>
      = \<lparr>value = ''12'', position = 0\<rparr>"
    by (simp add: NumbersOnlyState_def RemoveNonNumbers_def isDigit_def qt_defs)
  have two: "realNowState ?r2 = \<lparr>value = ''134'', position = 1\<rparr>"
    using backspace_reconstruction [OF bsp(1) strip2]
    by (cases "realNowState ?r2") simp
  have one: "realNowState ?r1 = \<lparr>value = ''234'', position = 0\<rparr>"
    using backspace_reconstruction [OF bsp(2) strip1]
    by (cases "realNowState ?r1") simp
  have none: "realNowState ?r0 = \<lparr>value = ''12'', position = 0\<rparr>"
    using backspace_reconstruction [OF bsp(3) strip0]
    by (cases "realNowState ?r0") simp
  from bsp strip2 strip1 strip0 two one none show ?thesis by simp
qed

subsection \<open>The CVC validator\<close>

text \<open>
  C10, as the claim states it: on a backspace or a delete the CVC validator would return
  what the reconstruction from the before snapshot gives. From \<open>1 2\<close> with the cursor after
  the space, a backspace leads to \<open>12\<close> with the cursor at 1; the reconstruction yields
  \<open>2\<close>, the CVC validator returns \<open>12\<close>.
\<close>

theorem cvc_differs_from_reconstruction:
  "IsBackspace \<lparr>wasValue = ''1 2'', wasPosition = 2, wasAnchor = 2,
                 nowValue = ''12'', nowPosition = 1\<rparr>
   \<and> realNowState \<lparr>wasValue = ''1 2'', wasPosition = 2, wasAnchor = 2,
                    nowValue = ''12'', nowPosition = 1\<rparr>
       = \<lparr>value = ''2'', position = 0\<rparr>
   \<and> result_value (CvcValidator (\<lambda>n v. \<lparr>state = Valid, verdict_finished = True\<rparr>) ''4242''
        \<lparr>wasValue = ''1 2'', wasPosition = 2, wasAnchor = 2,
         nowValue = ''12'', nowPosition = 1\<rparr>) = ''12''
   \<and> result_value (CvcValidator (\<lambda>n v. \<lparr>state = Valid, verdict_finished = True\<rparr>) ''4242''
        \<lparr>wasValue = ''1 2'', wasPosition = 2, wasAnchor = 2,
         nowValue = ''12'', nowPosition = 1\<rparr>)
       \<noteq> value (realNowState \<lparr>wasValue = ''1 2'', wasPosition = 2, wasAnchor = 2,
                    nowValue = ''12'', nowPosition = 1\<rparr>)"
  by (simp add: CvcValidator_def realNowState_def IsBackspace_def IsDelete_def
      NumbersOnlyState_def RemoveNonNumbers_def isDigit_def qt_defs)

text \<open>
  C10, amended. For every request and whatever its classification, the value and cursor the
  CVC validator returns are the numbers-only projection of the after snapshot; it never
  reconstructs from the before snapshot. Its whole answer equals that of
  \<open>ComplexNumberValidator\<close> (same checker, no formatting) whenever the request is neither a
  backspace nor a delete, and also whenever the before value holds digits only, the after
  cursor is not negative and the before cursor is not past the end of its value, which is
  how a CVC field is edited.
\<close>

theorem cvc_uses_stripped_after_snapshot:
  "result_value (CvcValidator ValidateCvc number r)
      = value (NumbersOnlyState \<lparr>value = nowValue r, position = nowPosition r\<rparr>)
   \<and> result_position (CvcValidator ValidateCvc number r)
      = position (NumbersOnlyState \<lparr>value = nowValue r, position = nowPosition r\<rparr>)
   \<and> (\<not> IsBackspace r \<and> \<not> IsDelete r \<longrightarrow>
        CvcValidator ValidateCvc number r
          = ComplexNumberValidator (ValidateCvc number) (\<lambda>st. st) r)
   \<and> (RemoveNonNumbers (wasValue r) = wasValue r
        \<and> 0 \<le> nowPosition r \<and> wasPosition r \<le> QString_size (wasValue r) \<longrightarrow>
        CvcValidator ValidateCvc number r
          = ComplexNumberValidator (ValidateCvc number) (\<lambda>st. st) r)"
proof -
  have "CvcValidator ValidateCvc number r
          = ComplexNumberValidator (ValidateCvc number) (\<lambda>st. st) r"
    if "realNowState r = NumbersOnlyState \<lparr>value = nowValue r, position = nowPosition r\<rparr>"
    using that by (simp add: CvcValidator_def ComplexNumberValidator_def Let_def)
  moreover have "realNowState r
      = NumbersOnlyState \<lparr>value = nowValue r, position = nowPosition r\<rparr>"
    if "\<not> IsBackspace r" "\<not> IsDelete r"
    using that by (simp add: realNowState_def)
  ultimately show ?thesis
    using realNowState_digits_only [of r]
    by (simp add: CvcValidator_def Let_def)
qed

text \<open>
  The amended C10 where the user types \<open>3\<close> after \<open>12\<close>: neither a backspace nor a delete, the
  before value is digits only, and both validators answer \<open>123\<close> with the cursor at 3.
\<close>

theorem cvc_uses_stripped_after_snapshot_witness:
  "\<not> IsBackspace \<lparr>wasValue = ''12'', wasPosition = 2, wasAnchor = 2,
                   nowValue = ''123'', nowPosition = 3\<rparr>
   \<and> \<not> IsDelete \<lparr>wasValue = ''12'', wasPosition = 2, wasAnchor = 2,
                   nowValue = ''123'', nowPosition = 3\<rparr>
   \<and> RemoveNonNumbers ''12'' = ''12''
   \<and> ComplexNumberValidator (\<lambda>v. \<lparr>state = Valid, verdict_finished = True\<rparr>) (\<lambda>st. st)
         \<lparr>wasValue = ''12'', wasPosition = 2, wasAnchor = 2,
          nowValue = ''123'', nowPosition = 3\<rparr>
       = \<lparr>result_value = ''123'', result_position = 3, invalid = False, finished = True\<rparr>
   \<and> CvcValidator (\<lambda>n v. \<lparr>state = Valid, verdict_finished = True\<rparr>) ''4242''
         \<lparr>wasValue = ''12'', wasPosition = 2, wasAnchor = 2,
          nowValue = ''123'', nowPosition = 3\<rparr>
       = \<lparr>result_value = ''123'', result_position = 3, invalid = False, finished = True\<rparr>"
  using cvc_uses_stripped_after_snapshot
    [of "\<lambda>n v. \<lparr>state = Valid, verdict_finished = True\<rparr>" "''4242''"
        "\<lparr>wasValue = ''12'', wasPosition = 2, wasAnchor = 2,
          nowValue = ''123'', nowPosition = 3\<rparr>"]
  by (simp add: ComplexNumberValidator_def realNowState_def IsBackspace_def IsDelete_def
      NumbersOnlyState_def RemoveNonNumbers_def isDigit_def qt_defs)

subsection \<open>Cursors that stay within the value\<close>

text \<open>
  Beyond the claims: for every request the CVC validator returns a cursor within its value,
  and so does the card-number validator when no group length is negative; the expiry-date
  validator returns a cursor that is not negative (it may pass the end of its value, as the
  input of C1 shows).
\<close>

theorem card_and_cvc_cursor_in_bounds:
  "0 \<le> result_position (CvcValidator ValidateCvc number r)
   \<and> result_position (CvcValidator ValidateCvc number r)
        \<le> QString_size (result_value (CvcValidator ValidateCvc number r))
   \<and> 0 \<le> result_position (ExpireDateValidator ValidateExpireDate r)
   \<and> ((\<forall>g\<in>set (CardNumberFormat (value (realNowState r))). 0 \<le> g) \<longrightarrow>
        0 \<le> result_position (CardNumberValidator ValidateCard CardNumberFormat r)
        \<and> result_position (CardNumberValidator ValidateCard CardNumberFormat r)
            \<le> QString_size (result_value (CardNumberValidator ValidateCard CardNumberFormat r)))"
proof -
  have cvc: "0 \<le> result_position (CvcValidator ValidateCvc number r)
     \<and> result_position (CvcValidator ValidateCvc number r)
        \<le> QString_size (result_value (CvcValidator ValidateCvc number r))"
    using NumbersOnlyState_bounds [of "\<lparr>value = nowValue r, position = nowPosition r\<rparr>"]
    by (simp add: CvcValidator_def Let_def)
  have card: "0 \<le> result_position (CardNumberValidator ValidateCard CardNumberFormat r)
        \<and> result_position (CardNumberValidator ValidateCard CardNumberFormat r)
            \<le> QString_size (result_value (CardNumberValidator ValidateCard CardNumberFormat r))"
    if "\<forall>g\<in>set (CardNumberFormat (value (realNowState r))). 0 \<le> g"
    using that realNowState_bounds [of r]
      card_loop_bounds [of 0 "CardNumberFormat (value (realNowState r))" "realNowState r"]
    by (simp add: CardNumberValidator_def ComplexNumberValidator_def Let_def
        PostprocessCardValidateResult_def)
  have "0 \<le> position (PostprocessExpireDateValidateResult st)" if "0 \<le> position st" for st
    using that by (simp add: PostprocessExpireDateValidateResult_def Let_def)
  then have expire: "0 \<le> result_position (ExpireDateValidator ValidateExpireDate r)"
    using realNowState_bounds [of r]
    by (simp add: ExpireDateValidator_def ComplexNumberValidator_def Let_def)
  from cvc card expire show ?thesis by blast
qed

text \<open>
  The card-number validator where the user types \<open>5\<close> after \<open>1234\<close>, grouped by four: the
  value is \<open>1234 5\<close> and the cursor 6.
\<close>

theorem card_and_cvc_cursor_in_bounds_witness:
  "(\<forall>g\<in>set [4, 4, 4, 4 :: int]. 0 \<le> g)
   \<and> CardNumberValidator (\<lambda>v. \<lparr>state = Incomplete, verdict_finished = False\<rparr>)
        (\<lambda>_. [4, 4, 4, 4])
        \<lparr>wasValue = ''1234'', wasPosition = 4, wasAnchor = 4,
         nowValue = ''12345'', nowPosition = 5\<rparr>
       = \<lparr>result_value = ''1234 5'', result_position = 6, invalid = False, finished = False\<rparr>
   \<and> result_position (CardNumberValidator (\<lambda>v. \<lparr>state = Incomplete, verdict_finished = False\<rparr>)
        (\<lambda>_. [4, 4, 4, 4])
        \<lparr>wasValue = ''1234'', wasPosition = 4, wasAnchor = 4,
         nowValue = ''12345'', nowPosition = 5\<rparr>)
      \<le> QString_size (result_value
          (CardNumberValidator (\<lambda>v. \<lparr>state = Incomplete, verdict_finished = False\<rparr>)
            (\<lambda>_. [4, 4, 4, 4])
            \<lparr>wasValue = ''1234'', wasPosition = 4, wasAnchor = 4,
             nowValue = ''12345'', nowPosition = 5\<rparr>))"
  using card_and_cvc_cursor_in_bounds
    [of "\<lambda>n v. \<lparr>state = Incomplete, verdict_finished = False\<rparr>" "[]"
        "\<lparr>wasValue = ''1234'', wasPosition = 4, wasAnchor = 4,
          nowValue = ''12345'', nowPosition = 5\<rparr>"
        "\<lambda>v. \<lparr>state = Incomplete, verdict_finished = False\<rparr>"
        "\<lambda>_. [4, 4, 4, 4]"
        "\<lambda>v. \<lparr>state = Incomplete, verdict_finished = False\<rparr>"]
  by (simp add: CardNumberValidator_def ComplexNumberValidator_def realNowState_def
      IsBackspace_def IsDelete_def NumbersOnlyState_def RemoveNonNumbers_def isDigit_def
      PostprocessCardValidateResult_def qt_defs)

end
